theory Spec2Isabelle
  imports Complex_Main
begin

section \<open>Values, responses and promises\<close>

text \<open>
  The binding layer of \<^verbatim>\<open>src/apis/info/api.ts\<close> handles JavaScript values it never
  computes with: the arguments it is given, and the decoded JSON body of a response.
  A value is \<^verbatim>\<open>undefined\<close>, \<^verbatim>\<open>null\<close>, a boolean, a number, a string, an array or an
  object. An object is the list of its own properties in insertion order; a decoded
  JSON object has each key once, and a read finds the entry of that key. Numbers are
  carried as they are and no arithmetic is done on them.
\<close>

datatype jsval =
    JUndefined
  | JNull
  | JBool bool
  | JNum real
  | JStr string
  | JArr "jsval list"
  | JObj "(string \<times> jsval) list"

text \<open>
  What a promise can be rejected with: the \<^verbatim>\<open>TypeError\<close> that the engine throws when a
  property of \<^verbatim>\<open>undefined\<close> or \<^verbatim>\<open>null\<close> is read or when a value that is no function is
  called, or any value that the transport rejected with.
\<close>

datatype reason = TypeError | Rejection jsval

text \<open>
  A promise is given by how it settles; \<open>Pending\<close> is a promise that never settles.
\<close>

datatype 'a promise = Fulfilled 'a | Rejected reason | Pending

text \<open>
  Modelled from the spec: the type \<^verbatim>\<open>RequestResponseData\<close> is declared in
  \<^verbatim>\<open>utils/types\<close>, which is not among the sources. The binding layer reads one field
  of it, \<^verbatim>\<open>data\<close>, the decoded body (of TypeScript type \<^verbatim>\<open>any\<close>).
\<close>

record RequestResponseData =
  data :: jsval

text \<open>
  The read \<^verbatim>\<open>v[k]\<close>. On \<^verbatim>\<open>undefined\<close> and \<^verbatim>\<open>null\<close> it throws a \<^verbatim>\<open>TypeError\<close>; on an
  object it gives the property, or \<^verbatim>\<open>undefined\<close> when the object has none of that name.
  The keys read in this file are \<^verbatim>\<open>result\<close>, \<^verbatim>\<open>nodeID\<close>, \<^verbatim>\<open>networkID\<close>, \<^verbatim>\<open>success\<close>,
  \<^verbatim>\<open>blockchainID\<close>, \<^verbatim>\<open>version\<close>, \<^verbatim>\<open>networkName\<close> and \<^verbatim>\<open>peers\<close>: none of them names a
  property that a boolean, a number, a string or an array has, or one that objects
  inherit, so on those values the read gives \<^verbatim>\<open>undefined\<close>.
\<close>

fun get_prop :: "jsval \<Rightarrow> string \<Rightarrow> reason + jsval" where
  "get_prop JUndefined k = Inl TypeError"
| "get_prop JNull k = Inl TypeError"
| "get_prop (JObj ps) k = Inr (case map_of ps k of None \<Rightarrow> JUndefined | Some v \<Rightarrow> v)"
| "get_prop (JBool b) k = Inr JUndefined"
| "get_prop (JNum n) k = Inr JUndefined"
| "get_prop (JStr s) k = Inr JUndefined"
| "get_prop (JArr vs) k = Inr JUndefined"

text \<open>
  A chained read \<^verbatim>\<open>e[k]\<close>, where evaluating \<^verbatim>\<open>e\<close> may already have thrown.
\<close>

fun index :: "reason + jsval \<Rightarrow> string \<Rightarrow> reason + jsval" where
  "index (Inl e) k = Inl e"
| "index (Inr v) k = get_prop v k"

text \<open>
  \<^verbatim>\<open>p.then(f)\<close> with a callback that returns a plain value or throws: the new promise
  is fulfilled with what the callback returns, rejected with what it throws, rejected
  with the reason of \<^verbatim>\<open>p\<close> when \<^verbatim>\<open>p\<close> is rejected (the callback does not run), and
  never settles when \<^verbatim>\<open>p\<close> never does. An \<^verbatim>\<open>async\<close> function that returns this promise
  settles as it does.
\<close>

fun then_p :: "'a promise \<Rightarrow> ('a \<Rightarrow> reason + 'b) \<Rightarrow> 'b promise" where
  "then_p (Fulfilled x) f = (case f x of Inl e \<Rightarrow> Rejected e | Inr y \<Rightarrow> Fulfilled y)"
| "then_p (Rejected e) f = Rejected e"
| "then_p Pending f = Pending"

section \<open>The heap of parameter objects and the shared call primitive\<close>

text \<open>
  An object literal \<^verbatim>\<open>{...}\<close> creates a new object each time it is evaluated, and
  \<^verbatim>\<open>callMethod\<close> is passed a reference to it. The state therefore has a heap: the
  objects created so far, the reference of an object being its position. It also
  keeps the list of the calls made to \<^verbatim>\<open>callMethod\<close> (method name, the parameter
  argument, and how the promise it returned settles), and the state of the transport.
\<close>

type_synonym obj = "(string \<times> jsval) list"

record call =
  rpc_method :: string
  params :: "nat option"
  outcome :: "RequestResponseData promise"

record 's world =
  heap :: "obj list"
  calls :: "call list"
  transport :: 's

definition new_object :: "obj \<Rightarrow> 's world \<Rightarrow> nat \<times> 's world" where
  "new_object props w = (length (heap w), w\<lparr>heap := heap w @ [props]\<rparr>)"

definition deref :: "obj list \<Rightarrow> nat \<Rightarrow> obj option" where
  "deref h r = (if r < length h then Some (h ! r) else None)"

text \<open>
  Modelled from the spec: \<^verbatim>\<open>callMethod\<close> is a member of the class \<^verbatim>\<open>JRPCAPI\<close> of
  \<^verbatim>\<open>utils/types\<close>, which is not among the sources; the spec calls it the shared call
  primitive, supplied from outside, that performs the request and returns a decoded
  response or a failure. It is a parameter \<open>tr\<close> of every operation: given the method
  name, the parameter argument (\<open>None\<close> when the argument is left out, else a
  reference), the heap, which it may read to serialise the parameters, and its own
  state, it says how the promise settles and gives its next state. It does not write
  to the objects of its caller. A call primitive that throws instead of returning a
  promise rejects the promise of the \<^verbatim>\<open>async\<close> function that called it: that is
  the case \<open>Rejected\<close>. \<open>callMethod\<close> runs the transport and records the call.
\<close>

type_synonym 's transport_fn =
  "string \<Rightarrow> nat option \<Rightarrow> obj list \<Rightarrow> 's \<Rightarrow> RequestResponseData promise \<times> 's"

definition callMethod ::
  "'s transport_fn \<Rightarrow> string \<Rightarrow> nat option \<Rightarrow> 's world \<Rightarrow> RequestResponseData promise \<times> 's world" where
  "callMethod tr m ps w =
     (case tr m ps (heap w) (transport w) of
        (p, s') \<Rightarrow>
          (p, w\<lparr>calls := calls w @ [\<lparr>rpc_method = m, params = ps, outcome = p\<rparr>],
                 transport := s'\<rparr>))"

section \<open>The operations of InfoAPI\<close>

text \<open>
  One definition for each member of the class, in the order of the source. The
  arguments are the values the caller passes (TypeScript declares them \<^verbatim>\<open>string\<close>;
  the annotation is erased when the code runs, and the value is stored as it is).
\<close>

definition getNodeID :: "'s transport_fn \<Rightarrow> 's world \<Rightarrow> jsval promise \<times> 's world" where
  "getNodeID tr w =
     (case new_object [] w of
        (ps, w1) \<Rightarrow>
          (case callMethod tr ''info.getNodeID'' (Some ps) w1 of
             (p, w2) \<Rightarrow>
               (then_p p (\<lambda>response. index (index (Inr (data response)) ''result'') ''nodeID''), w2)))"

definition getNetworkID :: "'s transport_fn \<Rightarrow> 's world \<Rightarrow> jsval promise \<times> 's world" where
  "getNetworkID tr w =
     (case new_object [] w of
        (ps, w1) \<Rightarrow>
          (case callMethod tr ''info.getNetworkID'' (Some ps) w1 of
             (p, w2) \<Rightarrow>
               (then_p p (\<lambda>response. index (index (Inr (data response)) ''result'') ''networkID''), w2)))"

definition alias' :: "'s transport_fn \<Rightarrow> jsval \<Rightarrow> jsval \<Rightarrow> 's world \<Rightarrow> jsval promise \<times> 's world" where
  "alias' tr endpoint alias w =
     (case new_object [(''endpoint'', endpoint), (''alias'', alias)] w of
        (ps, w1) \<Rightarrow>
          (case callMethod tr ''info.alias'' (Some ps) w1 of
             (p, w2) \<Rightarrow>
               (then_p p (\<lambda>response. index (index (Inr (data response)) ''result'') ''success''), w2)))"

definition aliasChain :: "'s transport_fn \<Rightarrow> jsval \<Rightarrow> jsval \<Rightarrow> 's world \<Rightarrow> jsval promise \<times> 's world" where
  "aliasChain tr chain alias w =
     (case new_object [(''chain'', chain), (''alias'', alias)] w of
        (ps, w1) \<Rightarrow>
          (case callMethod tr ''info.aliasChain'' (Some ps) w1 of
             (p, w2) \<Rightarrow>
               (then_p p (\<lambda>response. index (index (Inr (data response)) ''result'') ''success''), w2)))"

definition getBlockchainID :: "'s transport_fn \<Rightarrow> jsval \<Rightarrow> 's world \<Rightarrow> jsval promise \<times> 's world" where
  "getBlockchainID tr alias w =
     (case new_object [(''alias'', alias)] w of
        (ps, w1) \<Rightarrow>
          (case callMethod tr ''info.getBlockchainID'' (Some ps) w1 of
             (p, w2) \<Rightarrow>
               (then_p p (\<lambda>response. index (index (Inr (data response)) ''result'') ''blockchainID''), w2)))"

definition getNodeVersion :: "'s transport_fn \<Rightarrow> 's world \<Rightarrow> jsval promise \<times> 's world" where
  "getNodeVersion tr w =
     (case callMethod tr ''info.getNodeVersion'' None w of
        (p, w1) \<Rightarrow>
          (then_p p (\<lambda>response. index (index (Inr (data response)) ''result'') ''version''), w1))"

definition getNetworkName :: "'s transport_fn \<Rightarrow> 's world \<Rightarrow> jsval promise \<times> 's world" where
  "getNetworkName tr w =
     (case callMethod tr ''info.getNetworkName'' None w of
        (p, w1) \<Rightarrow>
          (then_p p (\<lambda>response. index (index (Inr (data response)) ''result'') ''networkName''), w1))"

definition lockProfile :: "'s transport_fn \<Rightarrow> jsval \<Rightarrow> 's world \<Rightarrow> jsval promise \<times> 's world" where
  "lockProfile tr filename w =
     (case new_object [(''fileName'', filename)] w of
        (ps, w1) \<Rightarrow>
          (case callMethod tr ''info.lockProfile'' (Some ps) w1 of
             (p, w2) \<Rightarrow>
               (then_p p (\<lambda>response. index (index (Inr (data response)) ''result'') ''success''), w2)))"

definition memoryProfile :: "'s transport_fn \<Rightarrow> jsval \<Rightarrow> 's world \<Rightarrow> jsval promise \<times> 's world" where
  "memoryProfile tr filename w =
     (case new_object [(''fileName'', filename)] w of
        (ps, w1) \<Rightarrow>
          (case callMethod tr ''info.memoryProfile'' (Some ps) w1 of
             (p, w2) \<Rightarrow>
               (then_p p (\<lambda>response. index (index (Inr (data response)) ''result'') ''success''), w2)))"

definition peers :: "'s transport_fn \<Rightarrow> 's world \<Rightarrow> jsval promise \<times> 's world" where
  "peers tr w =
     (case callMethod tr ''info.peers'' None w of
        (p, w1) \<Rightarrow>
          (then_p p (\<lambda>response. index (index (Inr (data response)) ''result'') ''peers''), w1))"

definition startCPUProfiler :: "'s transport_fn \<Rightarrow> jsval \<Rightarrow> 's world \<Rightarrow> jsval promise \<times> 's world" where
  "startCPUProfiler tr filename w =
     (case new_object [(''fileName'', filename)] w of
        (ps, w1) \<Rightarrow>
          (case callMethod tr ''info.startCPUProfiler'' (Some ps) w1 of
             (p, w2) \<Rightarrow>
               (then_p p (\<lambda>response. index (index (Inr (data response)) ''result'') ''success''), w2)))"

definition stopCPUProfiler :: "'s transport_fn \<Rightarrow> 's world \<Rightarrow> jsval promise \<times> 's world" where
  "stopCPUProfiler tr w =
     (case callMethod tr ''info.stopCPUProfiler'' None w of
        (p, w1) \<Rightarrow>
          (then_p p (\<lambda>response. index (index (Inr (data response)) ''result'') ''success''), w1))"

section \<open>Invocations\<close>

text \<open>
  An invocation is one of the twelve operations together with its arguments;
  \<open>invoke\<close> runs the operation it names. The next three functions are the catalogue
  that the statements below compare the code with: for each invocation the method
  name, the parameter object (\<open>None\<close> where no parameter argument is passed) and the
  field of \<^verbatim>\<open>result\<close> that the operation is to return.
\<close>

datatype invocation =
    GetNodeID
  | GetNetworkID
  | Alias jsval jsval
  | AliasChain jsval jsval
  | GetBlockchainID jsval
  | GetNodeVersion
  | GetNetworkName
  | LockProfile jsval
  | MemoryProfile jsval
  | Peers
  | StartCPUProfiler jsval
  | StopCPUProfiler

fun invoke :: "'s transport_fn \<Rightarrow> invocation \<Rightarrow> 's world \<Rightarrow> jsval promise \<times> 's world" where
  "invoke tr GetNodeID = getNodeID tr"
| "invoke tr GetNetworkID = getNetworkID tr"
| "invoke tr (Alias endpoint alias) = alias' tr endpoint alias"
| "invoke tr (AliasChain chain alias) = aliasChain tr chain alias"
| "invoke tr (GetBlockchainID alias) = getBlockchainID tr alias"
| "invoke tr GetNodeVersion = getNodeVersion tr"
| "invoke tr GetNetworkName = getNetworkName tr"
| "invoke tr (LockProfile filename) = lockProfile tr filename"
| "invoke tr (MemoryProfile filename) = memoryProfile tr filename"
| "invoke tr Peers = peers tr"
| "invoke tr (StartCPUProfiler filename) = startCPUProfiler tr filename"
| "invoke tr StopCPUProfiler = stopCPUProfiler tr"

fun method_name :: "invocation \<Rightarrow> string" where
  "method_name GetNodeID = ''info.getNodeID''"
| "method_name GetNetworkID = ''info.getNetworkID''"
| "method_name (Alias endpoint alias) = ''info.alias''"
| "method_name (AliasChain chain alias) = ''info.aliasChain''"
| "method_name (GetBlockchainID alias) = ''info.getBlockchainID''"
| "method_name GetNodeVersion = ''info.getNodeVersion''"
| "method_name GetNetworkName = ''info.getNetworkName''"
| "method_name (LockProfile filename) = ''info.lockProfile''"
| "method_name (MemoryProfile filename) = ''info.memoryProfile''"
| "method_name Peers = ''info.peers''"
| "method_name (StartCPUProfiler filename) = ''info.startCPUProfiler''"
| "method_name StopCPUProfiler = ''info.stopCPUProfiler''"

fun param_object :: "invocation \<Rightarrow> obj option" where
  "param_object GetNodeID = Some []"
| "param_object GetNetworkID = Some []"
| "param_object (Alias endpoint alias) = Some [(''endpoint'', endpoint), (''alias'', alias)]"
| "param_object (AliasChain chain alias) = Some [(''chain'', chain), (''alias'', alias)]"
| "param_object (GetBlockchainID alias) = Some [(''alias'', alias)]"
| "param_object GetNodeVersion = None"
| "param_object GetNetworkName = None"
| "param_object (LockProfile filename) = Some [(''fileName'', filename)]"
| "param_object (MemoryProfile filename) = Some [(''fileName'', filename)]"
| "param_object Peers = None"
| "param_object (StartCPUProfiler filename) = Some [(''fileName'', filename)]"
| "param_object StopCPUProfiler = None"

fun result_field :: "invocation \<Rightarrow> string" where
  "result_field GetNodeID = ''nodeID''"
| "result_field GetNetworkID = ''networkID''"
| "result_field (Alias endpoint alias) = ''success''"
| "result_field (AliasChain chain alias) = ''success''"
| "result_field (GetBlockchainID alias) = ''blockchainID''"
| "result_field GetNodeVersion = ''version''"
| "result_field GetNetworkName = ''networkName''"
| "result_field (LockProfile filename) = ''success''"
| "result_field (MemoryProfile filename) = ''success''"
| "result_field Peers = ''peers''"
| "result_field (StartCPUProfiler filename) = ''success''"
| "result_field StopCPUProfiler = ''success''"

text \<open>
  The parameter object that a call passed, read from the heap.
\<close>

definition submitted :: "obj list \<Rightarrow> call \<Rightarrow> obj option" where
  "submitted h c = (case params c of None \<Rightarrow> None | Some r \<Rightarrow> deref h r)"

text \<open>
  The call made last, and what it sent: the method name and the parameter object.
\<close>

definition last_call :: "'s world \<Rightarrow> call" where
  "last_call w = last (calls w)"

definition sent :: "'s world \<Rightarrow> string \<times> obj option" where
  "sent w = (rpc_method (last_call w), submitted (heap w) (last_call w))"

text \<open>
  The call that an invocation is to make from the state \<open>w\<close>, by the catalogue:
  where a parameter object is passed, its reference is the next free position of the
  heap, and the heap that the transport is given holds the object there. \<open>reply\<close>
  is how the transport \<open>tr\<close> settles that call in the state it is in.
\<close>

definition param_ref :: "invocation \<Rightarrow> 's world \<Rightarrow> nat option" where
  "param_ref i w = (case param_object i of None \<Rightarrow> None | Some ob \<Rightarrow> Some (length (heap w)))"

definition heap_at_call :: "invocation \<Rightarrow> 's world \<Rightarrow> obj list" where
  "heap_at_call i w = heap w @ (case param_object i of None \<Rightarrow> [] | Some ob \<Rightarrow> [ob])"

definition reply :: "'s transport_fn \<Rightarrow> invocation \<Rightarrow> 's world \<Rightarrow> RequestResponseData promise" where
  "reply tr i w = fst (tr (method_name i) (param_ref i w) (heap_at_call i w) (transport w))"

text \<open>
  A mocked transport that settles every call in the same way and has no state of
  its own, and the state in which nothing has happened yet.
\<close>

definition answer :: "RequestResponseData promise \<Rightarrow> unit transport_fn" where
  "answer out m ps h s = (out, s)"

definition init :: "unit world" where
  "init = \<lparr>heap = [], calls = [], transport = ()\<rparr>"

text \<open>
  A transport that counts the requests it is asked to make: its state is their number.
\<close>

definition counting :: "RequestResponseData promise \<Rightarrow> nat transport_fn" where
  "counting out m ps h n = (out, Suc n)"

text \<open>
  What the callback of the operation returning the field \<open>f\<close> does with a response:
  \<^verbatim>\<open>response.data["result"][f]\<close>.
\<close>

definition read_result :: "string \<Rightarrow> RequestResponseData \<Rightarrow> reason + jsval" where
  "read_result f response = index (index (Inr (data response)) ''result'') f"

definition is_number :: "jsval \<Rightarrow> bool" where
  "is_number v = (case v of JNum n \<Rightarrow> True | _ \<Rightarrow> False)"

section \<open>The constructor and the members of an instance\<close>

text \<open>
  \<^verbatim>\<open>constructor(core, baseurl = "/ext/info"){ super(core, baseurl); }\<close>. The
  constructor of \<^verbatim>\<open>JRPCAPI\<close> is not among the sources and is the parameter \<open>super\<close>;
  an argument that is left out is \<open>None\<close>, and the default takes its place.
\<close>

definition InfoAPI_constructor :: "('c \<Rightarrow> string \<Rightarrow> 'o) \<Rightarrow> 'c \<Rightarrow> string option \<Rightarrow> 'o" where
  "InfoAPI_constructor super core baseurl =
     super core (case baseurl of None \<Rightarrow> ''/ext/info'' | Some b \<Rightarrow> b)"







section \<open>Responses used as examples\<close>

definition version_response :: RequestResponseData where
  "version_response =
     \<lparr>data = JObj [(''result'', JObj [(''version'', JStr ''avalanche/1.0.0'')])]\<rparr>"

definition peers_response :: RequestResponseData where
  "peers_response =
     \<lparr>data = JObj [(''result'', JObj [(''peers'', JArr [JStr ''1.2.3.4:9650'', JStr ''5.6.7.8:9650''])])]\<rparr>"

definition nodeID_response :: RequestResponseData where
  "nodeID_response =
     \<lparr>data = JObj [(''result'', JObj [(''nodeID'', JStr ''NodeID-5mb46qkSBj81k9g9e4VFjGGSbaaSLFRzD'')])]\<rparr>"

definition one_peer_response :: RequestResponseData where
  "one_peer_response = \<lparr>data = JObj [(''result'', JObj [(''peers'', JArr [JStr ''9.9.9.9:9651''])])]\<rparr>"

definition empty_result_response :: RequestResponseData where
  "empty_result_response = \<lparr>data = JObj [(''result'', JObj [])]\<rparr>"

definition no_result_response :: RequestResponseData where
  "no_result_response = \<lparr>data = JObj []\<rparr>"

definition string_networkID_response :: RequestResponseData where
  "string_networkID_response =
     \<lparr>data = JObj [(''result'', JObj [(''networkID'', JStr ''12345'')])]\<rparr>"

definition number_networkID_response :: RequestResponseData where
  "number_networkID_response =
     \<lparr>data = JObj [(''result'', JObj [(''networkID'', JNum 12345)])]\<rparr>"

definition success_response :: RequestResponseData where
  "success_response = \<lparr>data = JObj [(''result'', JObj [(''success'', JBool True)])]\<rparr>"

text \<open>
  Two invocations made one after the other, so that both are outstanding together:
  \<^verbatim>\<open>alias("bc/X", "xchain")\<close>, then
  \<^verbatim>\<open>aliasChain("2oYMBNV4eNHyqk2fjjV5nVQLDbtmNJzq5s3qs3Lo6ftnC6FByM", "X")\<close>.
\<close>

definition after_alias :: "unit world" where
  "after_alias =
     snd (invoke (answer (Fulfilled success_response)) (Alias (JStr ''bc/X'') (JStr ''xchain'')) init)"

definition after_aliasChain :: "unit world" where
  "after_aliasChain =
     snd (invoke (answer (Fulfilled success_response))
       (AliasChain (JStr ''2oYMBNV4eNHyqk2fjjV5nVQLDbtmNJzq5s3qs3Lo6ftnC6FByM'') (JStr ''X''))
       after_alias)"

definition connection_refused :: reason where
  "connection_refused = Rejection (JStr ''connect ECONNREFUSED 127.0.0.1:9650'')"

section \<open>What every invocation does\<close>

text \<open>
  Each operation makes one call, with the method name and the parameter object of the
  catalogue, and its promise is the promise of that call followed by the read of
  the operation's field.
\<close>

lemmas op_defs = getNodeID_def getNetworkID_def alias'_def aliasChain_def getBlockchainID_def
  getNodeVersion_def getNetworkName_def lockProfile_def memoryProfile_def peers_def
  startCPUProfiler_def stopCPUProfiler_def

lemma invoke_calls:
  "calls (snd (invoke tr i w)) = calls w @ [last_call (snd (invoke tr i w))]"
  by (cases i) (simp_all add: op_defs callMethod_def new_object_def last_call_def split: prod.splits)

lemma invoke_method:
  "rpc_method (last_call (snd (invoke tr i w))) = method_name i"
  by (cases i) (simp_all add: op_defs callMethod_def new_object_def last_call_def split: prod.splits)

lemma invoke_heap:
  "heap (snd (invoke tr i w)) =
     heap w @ (case param_object i of None \<Rightarrow> [] | Some ob \<Rightarrow> [ob])"
  by (cases i) (simp_all add: op_defs callMethod_def new_object_def last_call_def split: prod.splits)

lemma invoke_params:
  "params (last_call (snd (invoke tr i w))) =
     (case param_object i of None \<Rightarrow> None | Some ob \<Rightarrow> Some (length (heap w)))"
  by (cases i) (simp_all add: op_defs callMethod_def new_object_def last_call_def split: prod.splits)

lemma invoke_outcome:
  "outcome (last_call (snd (invoke tr i w))) =
     fst (tr (method_name i) (params (last_call (snd (invoke tr i w))))
            (heap (snd (invoke tr i w))) (transport w))"
  by (cases i) (simp_all add: op_defs callMethod_def new_object_def last_call_def split: prod.splits)

lemma invoke_transport:
  "transport (snd (invoke tr i w)) =
     snd (tr (method_name i) (params (last_call (snd (invoke tr i w))))
            (heap (snd (invoke tr i w))) (transport w))"
  by (cases i) (simp_all add: op_defs callMethod_def new_object_def last_call_def split: prod.splits)

lemma invoke_promise:
  "fst (invoke tr i w) =
     then_p (outcome (last_call (snd (invoke tr i w)))) (read_result (result_field i))"
  by (cases i) (simp_all add: op_defs callMethod_def new_object_def read_result_def[abs_def] last_call_def split: prod.splits)

lemma invoke_reply:
  "outcome (last_call (snd (invoke tr i w))) = reply tr i w"
  by (simp add: invoke_outcome invoke_params invoke_heap reply_def param_ref_def heap_at_call_def)

lemma invoke_then:
  "fst (invoke tr i w) = then_p (reply tr i w) (read_result (result_field i))"
  by (simp add: invoke_promise invoke_reply)

lemma invoke_submitted:
  "submitted (heap (snd (invoke tr i w))) (last_call (snd (invoke tr i w))) = param_object i"
  by (simp add: submitted_def invoke_params invoke_heap deref_def split: option.splits)

lemma read_result_present:
  "data response = JObj d \<Longrightarrow> map_of d ''result'' = Some (JObj res) \<Longrightarrow>
   map_of res f = Some v \<Longrightarrow> read_result f response = Inr v"
  by (simp add: read_result_def)

lemma read_result_absent:
  "data response = JObj d \<Longrightarrow> map_of d ''result'' = Some (JObj res) \<Longrightarrow>
   map_of res f = None \<Longrightarrow> read_result f response = Inr JUndefined"
  by (simp add: read_result_def)

lemma read_result_no_result:
  "data response = JObj d \<Longrightarrow> map_of d ''result'' = None \<Longrightarrow>
   read_result f response = Inl TypeError"
  by (simp add: read_result_def)


lemma invoke_sent: "sent (snd (invoke tr i w)) = (method_name i, param_object i)"
  by (simp add: sent_def invoke_method invoke_submitted)

lemma invoke_params_fresh:
  "params (last_call (snd (invoke tr i w))) = Some a \<Longrightarrow>
   a = length (heap w) \<and> length (heap (snd (invoke tr i w))) = Suc (length (heap w))"
  by (simp add: invoke_params invoke_heap split: option.splits)

lemma invoke_submitted_kept:
  "submitted (heap (snd (invoke tr i w)) @ later) (last_call (snd (invoke tr i w))) = param_object i"
  by (simp add: submitted_def invoke_params invoke_heap deref_def nth_append split: option.splits)

section \<open>The claims\<close>

text \<open>
  C1. For every operation, when the transport fulfils the call that the operation
  makes with a response whose decoded data is an object with a \<^verbatim>\<open>result\<close> object
  holding the operation's field, the promise of the operation is fulfilled with
  exactly the value of that field. In particular \<^verbatim>\<open>getNodeVersion\<close>, on the response
  \<^verbatim>\<open>{"result": {"version": "avalanche/1.0.0"}}\<close>, resolves to \<^verbatim>\<open>"avalanche/1.0.0"\<close>.
\<close>

theorem result_field_returned:
  "(reply tr i w = Fulfilled response \<longrightarrow>
    data response = JObj d \<longrightarrow>
    map_of d ''result'' = Some (JObj res) \<longrightarrow>
    map_of res (result_field i) = Some v \<longrightarrow>
    fst (invoke tr i w) = Fulfilled v)
   \<and> fst (getNodeVersion (answer (Fulfilled version_response)) w0) =
       Fulfilled (JStr ''avalanche/1.0.0'')"
proof (intro conjI impI)
  assume "reply tr i w = Fulfilled response"
    and "data response = JObj d"
    and "map_of d ''result'' = Some (JObj res)"
    and "map_of res (result_field i) = Some v"
  then show "fst (invoke tr i w) = Fulfilled v"
    by (simp add: invoke_then read_result_present)
next
  show "fst (getNodeVersion (answer (Fulfilled version_response)) w0) =
       Fulfilled (JStr ''avalanche/1.0.0'')"
    by (simp add: getNodeVersion_def callMethod_def answer_def version_response_def)
qed

text \<open>
  C1 at \<^verbatim>\<open>getNodeID()\<close> and at \<^verbatim>\<open>stopCPUProfiler()\<close>, with transports that fulfil
  every call with the one response.
\<close>

theorem result_field_returned_witness:
  "reply (answer (Fulfilled nodeID_response)) GetNodeID init = Fulfilled nodeID_response
   \<and> data nodeID_response =
       JObj [(''result'', JObj [(''nodeID'', JStr ''NodeID-5mb46qkSBj81k9g9e4VFjGGSbaaSLFRzD'')])]
   \<and> map_of [(''result'', JObj [(''nodeID'', JStr ''NodeID-5mb46qkSBj81k9g9e4VFjGGSbaaSLFRzD'')])]
         ''result'' =
       Some (JObj [(''nodeID'', JStr ''NodeID-5mb46qkSBj81k9g9e4VFjGGSbaaSLFRzD'')])
   \<and> map_of [(''nodeID'', JStr ''NodeID-5mb46qkSBj81k9g9e4VFjGGSbaaSLFRzD'')]
         (result_field GetNodeID) =
       Some (JStr ''NodeID-5mb46qkSBj81k9g9e4VFjGGSbaaSLFRzD'')
   \<and> fst (invoke (answer (Fulfilled nodeID_response)) GetNodeID init) =
       Fulfilled (JStr ''NodeID-5mb46qkSBj81k9g9e4VFjGGSbaaSLFRzD'')
   \<and> reply (answer (Fulfilled success_response)) StopCPUProfiler init = Fulfilled success_response
   \<and> fst (invoke (answer (Fulfilled success_response)) StopCPUProfiler init) =
       Fulfilled (JBool True)"
proof -
  have h1: "reply (answer (Fulfilled nodeID_response)) GetNodeID init = Fulfilled nodeID_response"
    by (simp add: reply_def answer_def)
  have h2: "data nodeID_response =
       JObj [(''result'', JObj [(''nodeID'', JStr ''NodeID-5mb46qkSBj81k9g9e4VFjGGSbaaSLFRzD'')])]"
    by (simp add: nodeID_response_def)
  have h3: "map_of [(''result'', JObj [(''nodeID'', JStr ''NodeID-5mb46qkSBj81k9g9e4VFjGGSbaaSLFRzD'')])]
         ''result'' =
       Some (JObj [(''nodeID'', JStr ''NodeID-5mb46qkSBj81k9g9e4VFjGGSbaaSLFRzD'')])"
    by simp
  have h4: "map_of [(''nodeID'', JStr ''NodeID-5mb46qkSBj81k9g9e4VFjGGSbaaSLFRzD'')]
         (result_field GetNodeID) =
       Some (JStr ''NodeID-5mb46qkSBj81k9g9e4VFjGGSbaaSLFRzD'')"
    by simp
  have c: "fst (invoke (answer (Fulfilled nodeID_response)) GetNodeID init) =
       Fulfilled (JStr ''NodeID-5mb46qkSBj81k9g9e4VFjGGSbaaSLFRzD'')"
    using result_field_returned [THEN conjunct1, rule_format, OF h1 h2 h3 h4] .
  have k1: "reply (answer (Fulfilled success_response)) StopCPUProfiler init =
      Fulfilled success_response"
    by (simp add: reply_def answer_def)
  have k2: "data success_response = JObj [(''result'', JObj [(''success'', JBool True)])]"
    by (simp add: success_response_def)
  have k3: "map_of [(''result'', JObj [(''success'', JBool True)])] ''result'' =
      Some (JObj [(''success'', JBool True)])"
    by simp
  have k4: "map_of [(''success'', JBool True)] (result_field StopCPUProfiler) = Some (JBool True)"
    by simp
  have e: "fst (invoke (answer (Fulfilled success_response)) StopCPUProfiler init) =
       Fulfilled (JBool True)"
    using result_field_returned [THEN conjunct1, rule_format, OF k1 k2 k3 k4] .
  from h1 h2 h3 h4 c k1 e show ?thesis by blast
qed

text \<open>
  C2, as stated, fails: it says that every operation without inputs submits a
  parameter mapping with no keys. \<^verbatim>\<open>getNodeVersion\<close> calls
  \<^verbatim>\<open>this.callMethod("info.getNodeVersion")\<close> with no second argument: it submits no
  parameter mapping at all, which is not the empty mapping that \<^verbatim>\<open>getNodeID\<close> builds
  with \<^verbatim>\<open>let params = {}\<close>.
\<close>

theorem zero_input_parameters_counterexample:
  "sent (snd (getNodeVersion (answer (Fulfilled version_response)) init)) =
     (''info.getNodeVersion'', None)
   \<and> params (last_call (snd (getNodeVersion (answer (Fulfilled version_response)) init))) = None
   \<and> sent (snd (getNodeVersion (answer (Fulfilled version_response)) init)) \<noteq>
     (''info.getNodeVersion'', Some [])"
  by (simp add: getNodeVersion_def callMethod_def answer_def init_def sent_def last_call_def
      submitted_def)

text \<open>
  C2, amended. For every operation and all arguments, one call is made to the shared
  call primitive; its method name is the one of the catalogue, and the parameter
  object it passes has exactly the documented keys, bound to the arguments passed in.
  \<^verbatim>\<open>alias("bc/X", "xchain")\<close> submits \<^verbatim>\<open>info.alias\<close> with
  \<^verbatim>\<open>{"endpoint": "bc/X", "alias": "xchain"}\<close>. Of the operations without inputs,
  \<^verbatim>\<open>getNodeID\<close> and \<^verbatim>\<open>getNetworkID\<close> submit a mapping with no keys, and
  \<^verbatim>\<open>getNodeVersion\<close>, \<^verbatim>\<open>getNetworkName\<close>, \<^verbatim>\<open>peers\<close> and \<^verbatim>\<open>stopCPUProfiler\<close> pass no
  parameter argument.
\<close>

theorem submitted_parameters:
  "calls (snd (invoke tr i w)) = calls w @ [last_call (snd (invoke tr i w))]
   \<and> sent (snd (invoke tr i w)) = (method_name i, param_object i)
   \<and> sent (snd (alias' tr (JStr ''bc/X'') (JStr ''xchain'') w)) =
       (''info.alias'', Some [(''endpoint'', JStr ''bc/X''), (''alias'', JStr ''xchain'')])
   \<and> sent (snd (getNodeID tr w)) = (''info.getNodeID'', Some [])
   \<and> sent (snd (getNetworkID tr w)) = (''info.getNetworkID'', Some [])
   \<and> sent (snd (getNodeVersion tr w)) = (''info.getNodeVersion'', None)
   \<and> sent (snd (getNetworkName tr w)) = (''info.getNetworkName'', None)
   \<and> sent (snd (peers tr w)) = (''info.peers'', None)
   \<and> sent (snd (stopCPUProfiler tr w)) = (''info.stopCPUProfiler'', None)"
proof -
  have one: "calls (snd (invoke tr i w)) = calls w @ [last_call (snd (invoke tr i w))]"
    by (rule invoke_calls)
  have any: "sent (snd (invoke tr i w)) = (method_name i, param_object i)"
    by (rule invoke_sent)
  have a: "sent (snd (alias' tr (JStr ''bc/X'') (JStr ''xchain'') w)) =
       (''info.alias'', Some [(''endpoint'', JStr ''bc/X''), (''alias'', JStr ''xchain'')])"
    using invoke_sent [of tr "Alias (JStr ''bc/X'') (JStr ''xchain'')" w] by simp
  have b: "sent (snd (getNodeID tr w)) = (''info.getNodeID'', Some [])"
    using invoke_sent [of tr GetNodeID w] by simp
  have c: "sent (snd (getNetworkID tr w)) = (''info.getNetworkID'', Some [])"
    using invoke_sent [of tr GetNetworkID w] by simp
  have d: "sent (snd (getNodeVersion tr w)) = (''info.getNodeVersion'', None)"
    using invoke_sent [of tr GetNodeVersion w] by simp
  have e: "sent (snd (getNetworkName tr w)) = (''info.getNetworkName'', None)"
    using invoke_sent [of tr GetNetworkName w] by simp
  have f: "sent (snd (peers tr w)) = (''info.peers'', None)"
    using invoke_sent [of tr Peers w] by simp
  have g: "sent (snd (stopCPUProfiler tr w)) = (''info.stopCPUProfiler'', None)"
    using invoke_sent [of tr StopCPUProfiler w] by simp
  from one any a b c d e f g show ?thesis by blast
qed

text \<open>
  The amended C2 at \<^verbatim>\<open>lockProfile("lock.profile")\<close>, from the state in which
  nothing has happened: the one call recorded, and what it sent.
\<close>

theorem submitted_parameters_witness:
  "calls (snd (invoke (answer Pending) (LockProfile (JStr ''lock.profile'')) init)) =
     [\<lparr>rpc_method = ''info.lockProfile'', params = Some 0, outcome = Pending\<rparr>]
   \<and> sent (snd (invoke (answer Pending) (LockProfile (JStr ''lock.profile'')) init)) =
     (''info.lockProfile'', Some [(''fileName'', JStr ''lock.profile'')])"
proof -
  have l: "last_call (snd (invoke (answer Pending) (LockProfile (JStr ''lock.profile'')) init)) =
     \<lparr>rpc_method = ''info.lockProfile'', params = Some 0, outcome = Pending\<rparr>"
    by (simp add: lockProfile_def callMethod_def new_object_def answer_def init_def last_call_def)
  have i: "calls init = []"
    by (simp add: init_def)
  note t = submitted_parameters [of "answer Pending" "LockProfile (JStr ''lock.profile'')" init]
  from t have "calls (snd (invoke (answer Pending) (LockProfile (JStr ''lock.profile'')) init)) =
     calls init @ [last_call (snd (invoke (answer Pending) (LockProfile (JStr ''lock.profile'')) init))]"
    by (rule conjunct1)
  then have c: "calls (snd (invoke (answer Pending) (LockProfile (JStr ''lock.profile'')) init)) =
     [\<lparr>rpc_method = ''info.lockProfile'', params = Some 0, outcome = Pending\<rparr>]"
    unfolding l i by simp
  from t have "sent (snd (invoke (answer Pending) (LockProfile (JStr ''lock.profile'')) init)) =
     (method_name (LockProfile (JStr ''lock.profile'')), param_object (LockProfile (JStr ''lock.profile'')))"
    by (rule conjunct2 [THEN conjunct1])
  then have s: "sent (snd (invoke (answer Pending) (LockProfile (JStr ''lock.profile'')) init)) =
     (''info.lockProfile'', Some [(''fileName'', JStr ''lock.profile'')])"
    by simp
  from c s show ?thesis by (rule conjI)
qed

text \<open>
  C3, as stated, fails: it says that a successful response without the expected field
  makes the operation surface a malformed-response error. On the response
  \<^verbatim>\<open>{"result": {}}\<close> the promise of \<^verbatim>\<open>getNodeID\<close> is fulfilled, with \<^verbatim>\<open>undefined\<close>.
\<close>

theorem missing_field_counterexample:
  "outcome (last_call (snd (getNodeID (answer (Fulfilled empty_result_response)) init))) =
     Fulfilled empty_result_response
   \<and> get_prop (data empty_result_response) ''result'' = Inr (JObj [])
   \<and> map_of [] ''nodeID'' = (None :: jsval option)
   \<and> fst (getNodeID (answer (Fulfilled empty_result_response)) init) = Fulfilled JUndefined"
  by (simp add: getNodeID_def callMethod_def new_object_def answer_def init_def last_call_def
      empty_result_response_def)

text \<open>
  C3, amended. For every operation, when the transport fulfils the call that the
  operation makes with a response whose \<^verbatim>\<open>result\<close> object lacks the operation's
  field, the promise of the operation is fulfilled with \<^verbatim>\<open>undefined\<close> and no error is
  surfaced; when the decoded data is an object with no \<^verbatim>\<open>result\<close> member, the promise
  is rejected with the \<^verbatim>\<open>TypeError\<close> of the failed read. There is no
  malformed-response error of its own.
\<close>

theorem missing_field_behaviour:
  "(reply tr i w = Fulfilled response \<longrightarrow>
    data response = JObj d \<longrightarrow>
    map_of d ''result'' = Some (JObj res) \<longrightarrow>
    map_of res (result_field i) = None \<longrightarrow>
    fst (invoke tr i w) = Fulfilled JUndefined)
   \<and> (reply tr i w = Fulfilled response \<longrightarrow>
    data response = JObj d \<longrightarrow>
    map_of d ''result'' = None \<longrightarrow>
    fst (invoke tr i w) = Rejected TypeError)"
proof (intro conjI impI)
  assume "reply tr i w = Fulfilled response"
    and "data response = JObj d"
    and "map_of d ''result'' = Some (JObj res)"
    and "map_of res (result_field i) = None"
  then show "fst (invoke tr i w) = Fulfilled JUndefined"
    by (simp add: invoke_then read_result_absent)
next
  assume "reply tr i w = Fulfilled response"
    and "data response = JObj d"
    and "map_of d ''result'' = None"
  then show "fst (invoke tr i w) = Rejected TypeError"
    by (simp add: invoke_then read_result_no_result)
qed

text \<open>
  The amended C3 at \<^verbatim>\<open>peers()\<close> on the responses \<^verbatim>\<open>{"result": {}}\<close> and \<^verbatim>\<open>{}\<close>, and
  at \<^verbatim>\<open>stopCPUProfiler()\<close> on \<^verbatim>\<open>{"result": {}}\<close>.
\<close>

theorem missing_field_behaviour_witness:
  "reply (answer (Fulfilled empty_result_response)) Peers init = Fulfilled empty_result_response
   \<and> data empty_result_response = JObj [(''result'', JObj [])]
   \<and> map_of [(''result'', JObj [])] ''result'' = Some (JObj [])
   \<and> map_of [] (result_field Peers) = (None :: jsval option)
   \<and> fst (invoke (answer (Fulfilled empty_result_response)) Peers init) = Fulfilled JUndefined
   \<and> reply (answer (Fulfilled no_result_response)) Peers init = Fulfilled no_result_response
   \<and> data no_result_response = JObj []
   \<and> map_of [] ''result'' = (None :: jsval option)
   \<and> fst (invoke (answer (Fulfilled no_result_response)) Peers init) = Rejected TypeError
   \<and> reply (answer (Fulfilled empty_result_response)) StopCPUProfiler init =
       Fulfilled empty_result_response
   \<and> fst (invoke (answer (Fulfilled empty_result_response)) StopCPUProfiler init) =
       Fulfilled JUndefined"
proof -
  have a1: "reply (answer (Fulfilled empty_result_response)) Peers init =
      Fulfilled empty_result_response"
    by (simp add: reply_def answer_def)
  have a2: "data empty_result_response = JObj [(''result'', JObj [])]"
    by (simp add: empty_result_response_def)
  have a3: "map_of [(''result'', JObj [])] ''result'' = Some (JObj [])"
    by simp
  have a4: "map_of [] (result_field Peers) = (None :: jsval option)"
    by simp
  have a: "fst (invoke (answer (Fulfilled empty_result_response)) Peers init) = Fulfilled JUndefined"
    using missing_field_behaviour [THEN conjunct1, rule_format, OF a1 a2 a3 a4] .
  have b1: "reply (answer (Fulfilled no_result_response)) Peers init = Fulfilled no_result_response"
    by (simp add: reply_def answer_def)
  have b2: "data no_result_response = JObj []"
    by (simp add: no_result_response_def)
  have b3: "map_of [] ''result'' = (None :: jsval option)"
    by simp
  have b: "fst (invoke (answer (Fulfilled no_result_response)) Peers init) = Rejected TypeError"
    using missing_field_behaviour [THEN conjunct2, rule_format, OF b1 b2 b3] .
  have c1: "reply (answer (Fulfilled empty_result_response)) StopCPUProfiler init =
      Fulfilled empty_result_response"
    by (simp add: reply_def answer_def)
  have c4: "map_of [] (result_field StopCPUProfiler) = (None :: jsval option)"
    by simp
  have c: "fst (invoke (answer (Fulfilled empty_result_response)) StopCPUProfiler init) =
      Fulfilled JUndefined"
    using missing_field_behaviour [THEN conjunct1, rule_format, OF c1 a2 a3 c4] .
  from a1 a2 a3 a4 a b1 b2 b3 b c1 c show ?thesis by blast
qed

text \<open>
  C4. For every operation, when the transport rejects the call that the operation
  makes, the promise of the operation is rejected with the same reason, unchanged,
  and the call was the only one made: nothing is swallowed, translated or retried.
\<close>

theorem rejection_propagated:
  "reply tr i w = Rejected r \<Longrightarrow>
   fst (invoke tr i w) = Rejected r
   \<and> calls (snd (invoke tr i w)) = calls w @ [last_call (snd (invoke tr i w))]
   \<and> outcome (last_call (snd (invoke tr i w))) = Rejected r"
  by (simp add: invoke_then invoke_reply invoke_calls [symmetric])

text \<open>
  C4 at \<^verbatim>\<open>getNetworkName()\<close> and at \<^verbatim>\<open>stopCPUProfiler()\<close>, with a transport that
  refuses the connection.
\<close>

theorem rejection_propagated_witness:
  "reply (answer (Rejected connection_refused)) GetNetworkName init = Rejected connection_refused
   \<and> fst (invoke (answer (Rejected connection_refused)) GetNetworkName init) =
     Rejected connection_refused
   \<and> length (calls (snd (invoke (answer (Rejected connection_refused)) GetNetworkName init))) = 1
   \<and> reply (answer (Rejected connection_refused)) StopCPUProfiler init = Rejected connection_refused
   \<and> fst (invoke (answer (Rejected connection_refused)) StopCPUProfiler init) =
     Rejected connection_refused"
proof -
  have h: "reply (answer (Rejected connection_refused)) GetNetworkName init =
      Rejected connection_refused"
    by (simp add: reply_def answer_def)
  have k: "reply (answer (Rejected connection_refused)) StopCPUProfiler init =
      Rejected connection_refused"
    by (simp add: reply_def answer_def)
  have i: "calls init = []"
    by (simp add: init_def)
  from rejection_propagated [OF h] have
    a: "fst (invoke (answer (Rejected connection_refused)) GetNetworkName init) =
       Rejected connection_refused"
    and b: "length (calls (snd (invoke (answer (Rejected connection_refused)) GetNetworkName init))) = 1"
    by (simp_all add: i)
  from rejection_propagated [OF k] have
    c: "fst (invoke (answer (Rejected connection_refused)) StopCPUProfiler init) =
       Rejected connection_refused"
    by simp
  from h a b k c show ?thesis by blast
qed

text \<open>
  C5. When the transport fulfils the call of \<^verbatim>\<open>peers\<close> with a response whose
  \<^verbatim>\<open>result.peers\<close> is a sequence of address strings, the promise is fulfilled with
  exactly that sequence; on the response
  \<^verbatim>\<open>{"result": {"peers": ["1.2.3.4:9650", "5.6.7.8:9650"]}}\<close> it resolves to
  \<^verbatim>\<open>["1.2.3.4:9650", "5.6.7.8:9650"]\<close>.
\<close>

theorem peers_returned:
  "(outcome (last_call (snd (peers tr w))) = Fulfilled response \<longrightarrow>
    data response = JObj d \<longrightarrow>
    map_of d ''result'' = Some (JObj res) \<longrightarrow>
    map_of res ''peers'' = Some (JArr (map JStr addresses)) \<longrightarrow>
    fst (peers tr w) = Fulfilled (JArr (map JStr addresses)))
   \<and> fst (peers (answer (Fulfilled peers_response)) w0) =
       Fulfilled (JArr [JStr ''1.2.3.4:9650'', JStr ''5.6.7.8:9650''])"
proof (intro conjI impI)
  assume "outcome (last_call (snd (peers tr w))) = Fulfilled response"
    and "data response = JObj d"
    and "map_of d ''result'' = Some (JObj res)"
    and "map_of res ''peers'' = Some (JArr (map JStr addresses))"
  then show "fst (peers tr w) = Fulfilled (JArr (map JStr addresses))"
    using invoke_promise [of tr Peers w] by (simp add: read_result_present)
next
  show "fst (peers (answer (Fulfilled peers_response)) w0) =
       Fulfilled (JArr [JStr ''1.2.3.4:9650'', JStr ''5.6.7.8:9650''])"
    by (simp add: peers_def callMethod_def answer_def peers_response_def)
qed

text \<open>
  C5 at a response with one peer, \<^verbatim>\<open>{"result": {"peers": ["9.9.9.9:9651"]}}\<close>.
\<close>

theorem peers_returned_witness:
  "outcome (last_call (snd (peers (answer (Fulfilled one_peer_response)) init))) =
     Fulfilled one_peer_response
   \<and> data one_peer_response = JObj [(''result'', JObj [(''peers'', JArr (map JStr [''9.9.9.9:9651'']))])]
   \<and> map_of [(''result'', JObj [(''peers'', JArr (map JStr [''9.9.9.9:9651'']))])] ''result'' =
       Some (JObj [(''peers'', JArr (map JStr [''9.9.9.9:9651'']))])
   \<and> map_of [(''peers'', JArr (map JStr [''9.9.9.9:9651'']))] ''peers'' =
       Some (JArr (map JStr [''9.9.9.9:9651'']))
   \<and> fst (peers (answer (Fulfilled one_peer_response)) init) = Fulfilled (JArr [JStr ''9.9.9.9:9651''])"
proof -
  have h1: "outcome (last_call (snd (peers (answer (Fulfilled one_peer_response)) init))) =
     Fulfilled one_peer_response"
    by (simp add: peers_def callMethod_def answer_def last_call_def)
  have h2: "data one_peer_response =
     JObj [(''result'', JObj [(''peers'', JArr (map JStr [''9.9.9.9:9651'']))])]"
    by (simp add: one_peer_response_def)
  have h3: "map_of [(''result'', JObj [(''peers'', JArr (map JStr [''9.9.9.9:9651'']))])] ''result'' =
       Some (JObj [(''peers'', JArr (map JStr [''9.9.9.9:9651'']))])"
    by simp
  have h4: "map_of [(''peers'', JArr (map JStr [''9.9.9.9:9651'']))] ''peers'' =
       Some (JArr (map JStr [''9.9.9.9:9651'']))"
    by simp
  have "fst (peers (answer (Fulfilled one_peer_response)) init) =
      Fulfilled (JArr (map JStr [''9.9.9.9:9651'']))"
    using peers_returned [THEN conjunct1, rule_format, OF h1 h2 h3 h4] .
  then have c: "fst (peers (answer (Fulfilled one_peer_response)) init) =
      Fulfilled (JArr [JStr ''9.9.9.9:9651''])"
    by simp
  from h1 h2 h3 h4 c show ?thesis by blast
qed

text \<open>
  C6, as stated, fails: it says that the value of every successful call of
  \<^verbatim>\<open>getNetworkID\<close> is a number. The field is returned as it was received: on the
  response \<^verbatim>\<open>{"result": {"networkID": "12345"}}\<close> the promise is fulfilled with the
  string \<^verbatim>\<open>"12345"\<close>.
\<close>

theorem networkID_not_number_counterexample:
  "outcome (last_call (snd (getNetworkID (answer (Fulfilled string_networkID_response)) init))) =
     Fulfilled string_networkID_response
   \<and> fst (getNetworkID (answer (Fulfilled string_networkID_response)) init) =
     Fulfilled (JStr ''12345'')
   \<and> \<not> is_number (JStr ''12345'')"
  by (simp add: getNetworkID_def callMethod_def new_object_def answer_def init_def last_call_def
      string_networkID_response_def is_number_def)

text \<open>
  C6, amended. \<^verbatim>\<open>getNetworkID\<close> takes no inputs and submits \<^verbatim>\<open>info.getNetworkID\<close>
  with an empty parameter mapping; when the call is fulfilled with a response holding
  \<^verbatim>\<open>result.networkID\<close>, the promise is fulfilled with the value of that field as it
  is, and whenever that field is a number the value returned is that number.
\<close>

theorem networkID_returned:
  "sent (snd (getNetworkID tr w)) = (''info.getNetworkID'', Some [])
   \<and> (outcome (last_call (snd (getNetworkID tr w))) = Fulfilled response \<longrightarrow>
      data response = JObj d \<longrightarrow>
      map_of d ''result'' = Some (JObj res) \<longrightarrow>
      map_of res ''networkID'' = Some v \<longrightarrow>
      fst (getNetworkID tr w) = Fulfilled v)
   \<and> (outcome (last_call (snd (getNetworkID tr w))) = Fulfilled response \<longrightarrow>
      data response = JObj d \<longrightarrow>
      map_of d ''result'' = Some (JObj res) \<longrightarrow>
      map_of res ''networkID'' = Some (JNum n) \<longrightarrow>
      fst (getNetworkID tr w) = Fulfilled (JNum n) \<and> is_number (JNum n))"
proof (intro conjI impI)
  show "sent (snd (getNetworkID tr w)) = (''info.getNetworkID'', Some [])"
    using invoke_sent [of tr GetNetworkID w] by simp
next
  assume "outcome (last_call (snd (getNetworkID tr w))) = Fulfilled response"
    and "data response = JObj d"
    and "map_of d ''result'' = Some (JObj res)"
    and "map_of res ''networkID'' = Some v"
  then show "fst (getNetworkID tr w) = Fulfilled v"
    using invoke_promise [of tr GetNetworkID w] by (simp add: read_result_present)
next
  assume "outcome (last_call (snd (getNetworkID tr w))) = Fulfilled response"
    and "data response = JObj d"
    and "map_of d ''result'' = Some (JObj res)"
    and "map_of res ''networkID'' = Some (JNum n)"
  then show "fst (getNetworkID tr w) = Fulfilled (JNum n)"
    using invoke_promise [of tr GetNetworkID w] by (simp add: read_result_present)
next
  show "is_number (JNum n)"
    by (simp add: is_number_def)
qed

text \<open>
  The amended C6 on the response \<^verbatim>\<open>{"result": {"networkID": 12345}}\<close>.
\<close>

theorem networkID_returned_witness:
  "outcome (last_call (snd (getNetworkID (answer (Fulfilled number_networkID_response)) init))) =
     Fulfilled number_networkID_response
   \<and> data number_networkID_response = JObj [(''result'', JObj [(''networkID'', JNum 12345)])]
   \<and> map_of [(''result'', JObj [(''networkID'', JNum 12345)])] ''result'' =
       Some (JObj [(''networkID'', JNum 12345)])
   \<and> map_of [(''networkID'', JNum 12345)] ''networkID'' = Some (JNum 12345)
   \<and> fst (getNetworkID (answer (Fulfilled number_networkID_response)) init) = Fulfilled (JNum 12345)
   \<and> is_number (JNum 12345)"
proof -
  have h1: "outcome (last_call (snd (getNetworkID (answer (Fulfilled number_networkID_response)) init))) =
     Fulfilled number_networkID_response"
    by (simp add: getNetworkID_def callMethod_def new_object_def answer_def last_call_def)
  have h2: "data number_networkID_response = JObj [(''result'', JObj [(''networkID'', JNum 12345)])]"
    by (simp add: number_networkID_response_def)
  have h3: "map_of [(''result'', JObj [(''networkID'', JNum 12345)])] ''result'' =
       Some (JObj [(''networkID'', JNum 12345)])"
    by simp
  have h4: "map_of [(''networkID'', JNum 12345)] ''networkID'' = Some (JNum 12345)"
    by simp
  have c: "fst (getNetworkID (answer (Fulfilled number_networkID_response)) init) = Fulfilled (JNum 12345)
      \<and> is_number (JNum 12345)"
    using networkID_returned [THEN conjunct2, THEN conjunct2, rule_format, OF h1 h2 h3 h4] .
  from h1 h2 h3 h4 c show ?thesis by blast
qed

text \<open>
  C7. Every invocation of every operation makes exactly one call to the shared call
  primitive, however that call settles: the list of calls grows by one entry, the
  transport is run once, from the state it was in, and a transport that counts its
  requests counts one more. No request is elided and none is made a second time.
\<close>

theorem one_call_per_invocation:
  "calls (snd (invoke tr i w)) = calls w @ [last_call (snd (invoke tr i w))]
   \<and> length (calls (snd (invoke tr i w))) = Suc (length (calls w))
   \<and> rpc_method (last_call (snd (invoke tr i w))) = method_name i
   \<and> outcome (last_call (snd (invoke tr i w))) =
       fst (tr (method_name i) (params (last_call (snd (invoke tr i w))))
              (heap (snd (invoke tr i w))) (transport w))
   \<and> transport (snd (invoke tr i w)) =
       snd (tr (method_name i) (params (last_call (snd (invoke tr i w))))
              (heap (snd (invoke tr i w))) (transport w))
   \<and> transport (snd (invoke (counting out) i wn)) = Suc (transport wn)"
proof (intro conjI)
  show one: "calls (snd (invoke tr i w)) = calls w @ [last_call (snd (invoke tr i w))]"
    by (rule invoke_calls)
  have "length (calls (snd (invoke tr i w))) = length (calls w @ [last_call (snd (invoke tr i w))])"
    using one by simp
  then show "length (calls (snd (invoke tr i w))) = Suc (length (calls w))"
    by simp
  show "rpc_method (last_call (snd (invoke tr i w))) = method_name i"
    by (rule invoke_method)
  show "outcome (last_call (snd (invoke tr i w))) =
       fst (tr (method_name i) (params (last_call (snd (invoke tr i w))))
              (heap (snd (invoke tr i w))) (transport w))"
    by (rule invoke_outcome)
  show "transport (snd (invoke tr i w)) =
       snd (tr (method_name i) (params (last_call (snd (invoke tr i w))))
              (heap (snd (invoke tr i w))) (transport w))"
    by (rule invoke_transport)
  show "transport (snd (invoke (counting out) i wn)) = Suc (transport wn)"
    by (simp add: invoke_transport [of "counting out" i wn] counting_def)
qed

text \<open>
  C7 at \<^verbatim>\<open>stopCPUProfiler()\<close> with the counting transport, for a call that fails and
  for one that succeeds: one call recorded, one request counted.
\<close>

theorem one_call_per_invocation_witness:
  "length (calls (snd (invoke (counting (Rejected connection_refused)) StopCPUProfiler
      \<lparr>heap = [], calls = [], transport = 0\<rparr>))) = 1
   \<and> transport (snd (invoke (counting (Rejected connection_refused)) StopCPUProfiler
      \<lparr>heap = [], calls = [], transport = 0\<rparr>)) = 1
   \<and> transport (snd (invoke (counting (Fulfilled success_response)) StopCPUProfiler
      \<lparr>heap = [], calls = [], transport = 0\<rparr>)) = 1"
proof -
  note t = one_call_per_invocation [of _ StopCPUProfiler "\<lparr>heap = [], calls = [], transport = 0\<rparr>" _
      "\<lparr>heap = [], calls = [], transport = 0\<rparr>"]
  have a: "length (calls (snd (invoke (counting (Rejected connection_refused)) StopCPUProfiler
      \<lparr>heap = [], calls = [], transport = 0\<rparr>))) = 1"
    using t [of "counting (Rejected connection_refused)" "Pending"] by simp
  have b: "transport (snd (invoke (counting (Rejected connection_refused)) StopCPUProfiler
      \<lparr>heap = [], calls = [], transport = 0\<rparr>)) = 1"
    using t [of "counting (Rejected connection_refused)" "Rejected connection_refused"] by simp
  have c: "transport (snd (invoke (counting (Fulfilled success_response)) StopCPUProfiler
      \<lparr>heap = [], calls = [], transport = 0\<rparr>)) = 1"
    using t [of "counting (Fulfilled success_response)" "Fulfilled success_response"] by simp
  from a b c show ?thesis by blast
qed

text \<open>
  C8. JavaScript runs one piece of code at a time: of two invocations that are
  outstanding together, the body of one runs to its \<^verbatim>\<open>return\<close> before the body of the
  other starts, and the callbacks run later, each with the response of its own call.
  For any two invocations made one after the other, in either order: each one that
  passes a parameter object passes a new one, different from the other's and from
  every object that existed before; after both have run, the object of each still
  holds the keys and arguments of its own invocation, and the objects that existed
  before are as they were; and the promise of each is the promise of its own call
  followed by the read of its own field, a function of the response alone.
\<close>

theorem invocations_share_no_parameters:
  "w1 = snd (invoke tr i1 w) \<Longrightarrow> w2 = snd (invoke tr i2 w1) \<Longrightarrow>
   calls w2 = calls w @ [last_call w1, last_call w2]
   \<and> submitted (heap w1) (last_call w1) = param_object i1
   \<and> submitted (heap w2) (last_call w1) = param_object i1
   \<and> submitted (heap w2) (last_call w2) = param_object i2
   \<and> (\<forall>a b. params (last_call w1) = Some a \<longrightarrow> params (last_call w2) = Some b \<longrightarrow>
         a \<noteq> b \<and> length (heap w) \<le> a \<and> length (heap w) \<le> b)
   \<and> take (length (heap w)) (heap w2) = heap w
   \<and> fst (invoke tr i1 w) = then_p (outcome (last_call w1)) (read_result (result_field i1))
   \<and> fst (invoke tr i2 w1) = then_p (outcome (last_call w2)) (read_result (result_field i2))"
proof -
  assume w1: "w1 = snd (invoke tr i1 w)" and w2: "w2 = snd (invoke tr i2 w1)"
  have c1: "calls w1 = calls w @ [last_call w1]"
    unfolding w1 by (rule invoke_calls)
  have c2: "calls w2 = calls w1 @ [last_call w2]"
    unfolding w2 by (rule invoke_calls)
  have calls: "calls w2 = calls w @ [last_call w1, last_call w2]"
    using c1 c2 by simp
  have h2: "heap w2 = heap w1 @ (case param_object i2 of None \<Rightarrow> [] | Some ob \<Rightarrow> [ob])"
    unfolding w2 by (rule invoke_heap)
  have h1: "heap w1 = heap w @ (case param_object i1 of None \<Rightarrow> [] | Some ob \<Rightarrow> [ob])"
    unfolding w1 by (rule invoke_heap)
  have s1: "submitted (heap w1) (last_call w1) = param_object i1"
    unfolding w1 by (rule invoke_submitted)
  have s12: "submitted (heap w2) (last_call w1) = param_object i1"
    unfolding h2 unfolding w1 by (rule invoke_submitted_kept)
  have s2: "submitted (heap w2) (last_call w2) = param_object i2"
    unfolding w2 by (rule invoke_submitted)
  have fresh: "\<forall>a b. params (last_call w1) = Some a \<longrightarrow> params (last_call w2) = Some b \<longrightarrow>
         a \<noteq> b \<and> length (heap w) \<le> a \<and> length (heap w) \<le> b"
  proof (intro allI impI)
    fix a b
    assume a: "params (last_call w1) = Some a" and b: "params (last_call w2) = Some b"
    from a have "a = length (heap w) \<and> length (heap w1) = Suc (length (heap w))"
      unfolding w1 by (rule invoke_params_fresh)
    moreover from b have "b = length (heap w1) \<and> length (heap w2) = Suc (length (heap w1))"
      unfolding w2 by (rule invoke_params_fresh)
    ultimately show "a \<noteq> b \<and> length (heap w) \<le> a \<and> length (heap w) \<le> b"
      by simp
  qed
  have frame: "take (length (heap w)) (heap w2) = heap w"
    unfolding h2 h1 by simp
  have p1: "fst (invoke tr i1 w) = then_p (outcome (last_call w1)) (read_result (result_field i1))"
    unfolding w1 by (rule invoke_promise)
  have p2: "fst (invoke tr i2 w1) = then_p (outcome (last_call w2)) (read_result (result_field i2))"
    unfolding w2 by (rule invoke_promise)
  from calls s1 s12 s2 fresh frame p1 p2 show ?thesis by blast
qed

text \<open>
  C8 at \<^verbatim>\<open>alias("bc/X", "xchain")\<close> followed by \<^verbatim>\<open>aliasChain(..., "X")\<close>: two
  references, and each object with its own keys after both invocations.
\<close>

theorem invocations_share_no_parameters_witness:
  "map params (calls after_aliasChain) = [Some 0, Some 1]
   \<and> submitted (heap after_aliasChain) (last_call after_alias) =
       Some [(''endpoint'', JStr ''bc/X''), (''alias'', JStr ''xchain'')]
   \<and> submitted (heap after_aliasChain) (last_call after_aliasChain) =
       Some [(''chain'', JStr ''2oYMBNV4eNHyqk2fjjV5nVQLDbtmNJzq5s3qs3Lo6ftnC6FByM''), (''alias'', JStr ''X'')]
   \<and> fst (invoke (answer (Fulfilled success_response)) (Alias (JStr ''bc/X'') (JStr ''xchain'')) init) =
       Fulfilled (JBool True)"
proof -
  note t = invocations_share_no_parameters [OF after_alias_def after_aliasChain_def]
  have l1: "last_call after_alias = \<lparr>rpc_method = ''info.alias'', params = Some 0,
      outcome = Fulfilled success_response\<rparr>"
    by (simp add: after_alias_def alias'_def callMethod_def new_object_def answer_def init_def
        last_call_def)
  have l2: "last_call after_aliasChain = \<lparr>rpc_method = ''info.aliasChain'', params = Some 1,
      outcome = Fulfilled success_response\<rparr>"
    by (simp add: after_aliasChain_def after_alias_def alias'_def aliasChain_def callMethod_def
        new_object_def answer_def init_def last_call_def)
  have i: "calls init = []"
    by (simp add: init_def)
  from t have "calls after_aliasChain = calls init @ [last_call after_alias, last_call after_aliasChain]"
    by (rule conjunct1)
  then have a: "map params (calls after_aliasChain) = [Some 0, Some 1]"
    by (simp add: l1 l2 i)
  from t have "submitted (heap after_aliasChain) (last_call after_alias) =
      param_object (Alias (JStr ''bc/X'') (JStr ''xchain''))"
    by blast
  then have b: "submitted (heap after_aliasChain) (last_call after_alias) =
       Some [(''endpoint'', JStr ''bc/X''), (''alias'', JStr ''xchain'')]"
    by simp
  from t have "submitted (heap after_aliasChain) (last_call after_aliasChain) =
      param_object (AliasChain (JStr ''2oYMBNV4eNHyqk2fjjV5nVQLDbtmNJzq5s3qs3Lo6ftnC6FByM'') (JStr ''X''))"
    by blast
  then have c: "submitted (heap after_aliasChain) (last_call after_aliasChain) =
       Some [(''chain'', JStr ''2oYMBNV4eNHyqk2fjjV5nVQLDbtmNJzq5s3qs3Lo6ftnC6FByM''), (''alias'', JStr ''X'')]"
    by simp
  from t have "fst (invoke (answer (Fulfilled success_response)) (Alias (JStr ''bc/X'') (JStr ''xchain'')) init) =
      then_p (outcome (last_call after_alias)) (read_result (result_field (Alias (JStr ''bc/X'') (JStr ''xchain''))))"
    by blast
  then have d: "fst (invoke (answer (Fulfilled success_response)) (Alias (JStr ''bc/X'') (JStr ''xchain'')) init) =
       Fulfilled (JBool True)"
    unfolding l1 by (simp add: read_result_def success_response_def)
  from a b c d show ?thesis by blast
qed

text \<open>
  C9. Constructing an \<^verbatim>\<open>InfoAPI\<close> without a base URL gives what constructing it with
  the base URL \<^verbatim>\<open>"/ext/info"\<close> gives, for every core object.
\<close>

theorem default_baseurl:
  "InfoAPI_constructor super core None = InfoAPI_constructor super core (Some ''/ext/info'')"
  by (simp add: InfoAPI_constructor_def)

text \<open>
  C9 with a superclass constructor that keeps the pair of its arguments.
\<close>

theorem default_baseurl_witness:
  "InfoAPI_constructor Pair (12345 :: nat) None = (12345, ''/ext/info'')"
  using default_baseurl [of Pair "12345 :: nat"] by (simp add: InfoAPI_constructor_def)



end
